theory Spec2Isabelle
  imports Main
begin

section \<open>Decoded JSON values and the Python operations applied to them\<close>

text \<open>
  The module \<^verbatim>\<open>plugins/modules/grafana_contact_point.py\<close> works on values decoded by
  \<^verbatim>\<open>json.loads\<close> and on the module parameters. A decoded value is \<open>None\<close>
  (\<open>JNull\<close>), a bool, an integer, a string, a list or a dict. A dict is kept as the list
  of its items in insertion order; the keys of a dict are distinct. Fractional numbers are
  outside the embedding.
\<close>

datatype json =
    JNull
  | JBool bool
  | JInt int
  | JStr string
  | JArr "json list"
  | JObj "(string \<times> json) list"

lemma map_of_size: "map_of kvs k = Some w \<Longrightarrow> size w < size (JObj kvs)"
  by (induction kvs) (auto split: if_splits)

lemma mem_arr_size: "z \<in> set xs \<Longrightarrow> size (z::json) \<le> size_list size xs"
  by (induction xs) auto

lemma mem_obj_size:
  "(k, v) \<in> set kvs \<Longrightarrow> size (v::json) \<le> size_list (size_prod (\<lambda>x. 0) size) kvs"
  by (induction kvs) auto

text \<open>
  Python's \<^verbatim>\<open>==\<close> on decoded values: \<open>True == 1\<close> and \<open>False == 0\<close> hold, lists are
  compared element by element, dicts are equal when they have the same number of items
  and every key of the left one is bound to an equal value in the right one (the order of
  the items is irrelevant).
\<close>

function (sequential) py_eq :: "json \<Rightarrow> json \<Rightarrow> bool" where
  "py_eq JNull JNull = True"
| "py_eq (JBool a) (JBool b) = (a = b)"
| "py_eq (JBool a) (JInt j) = ((if a then 1 else 0) = j)"
| "py_eq (JInt i) (JBool b) = (i = (if b then 1 else 0))"
| "py_eq (JInt i) (JInt j) = (i = j)"
| "py_eq (JStr s) (JStr t) = (s = t)"
| "py_eq (JArr xs) (JArr ys) = list_all2 py_eq xs ys"
| "py_eq (JObj xs) (JObj ys) =
     (length xs = length ys \<and>
      list_all (\<lambda>(k, v). case map_of ys k of None \<Rightarrow> False | Some w \<Rightarrow> py_eq v w) xs)"
| "py_eq _ _ = False"
  by pat_completeness auto
termination
  by (relation "measure (\<lambda>(a, b). size a + size b)")
     (auto dest!: map_of_size mem_arr_size mem_obj_size)

text \<open>Truth value of a decoded value, as \<^verbatim>\<open>if x:\<close> tests it.\<close>

fun py_truthy :: "json \<Rightarrow> bool" where
  "py_truthy JNull = False"
| "py_truthy (JBool b) = b"
| "py_truthy (JInt i) = (i \<noteq> 0)"
| "py_truthy (JStr s) = (s \<noteq> [])"
| "py_truthy (JArr xs) = (xs \<noteq> [])"
| "py_truthy (JObj kvs) = (kvs \<noteq> [])"

text \<open>A parameter of type \<open>str\<close> that may be \<open>None\<close>, as a value and as \<^verbatim>\<open>"%s" % x\<close>.\<close>

fun opt_str :: "string option \<Rightarrow> json" where
  "opt_str None = JNull"
| "opt_str (Some s) = JStr s"

fun str_opt :: "string option \<Rightarrow> string" where
  "str_opt None = ''None''"
| "str_opt (Some s) = s"

text \<open>\<^verbatim>\<open>"%s" % n\<close> for an integer.\<close>

fun str_nat :: "nat \<Rightarrow> string" where
  "str_nat n =
     (if n < 10 then [char_of (48 + n)]
      else str_nat (n div 10) @ [char_of (48 + n mod 10)])"

definition str_int :: "int \<Rightarrow> string" where
  "str_int i = (if i < 0 then ''-'' @ str_nat (nat (- i)) else str_nat (nat i))"

subsection \<open>Exceptions\<close>

text \<open>
  \<open>info\<close> is the second component of what \<^verbatim>\<open>fetch_url\<close> returns: the status of the
  response, with the message and (on HTTP errors) the body the transport records there.
\<close>

record info =
  status :: int
  msg :: string
  body :: "string option"

text \<open>
  \<open>GrafanaAPIException fmt args\<close> is the exception raised with the message
  \<^verbatim>\<open>fmt % args\<close>. The other errors are the Python exceptions the module's own
  expressions raise; \<open>ReadError\<close> is any exception of
  \<^verbatim>\<open>json.loads(to_text(r.read()))\<close>.
\<close>

datatype fmt_arg = ArgNone | ArgStr string | ArgInt int | ArgInfo info

fun arg_opt :: "string option \<Rightarrow> fmt_arg" where
  "arg_opt None = ArgNone"
| "arg_opt (Some s) = ArgStr s"

datatype error =
    GrafanaAPIException string "fmt_arg list"
  | TypeError
  | KeyError
  | StopIteration
  | ReadError

subsection \<open>Subscripts, iteration and \<^verbatim>\<open>next\<close> over a generator\<close>

text \<open>\<^verbatim>\<open>x[k]\<close> with a string key: only a dict accepts it.\<close>

fun py_getitem :: "json \<Rightarrow> string \<Rightarrow> error + json" where
  "py_getitem (JObj kvs) k = (case map_of kvs k of None \<Rightarrow> Inl KeyError | Some v \<Rightarrow> Inr v)"
| "py_getitem _ k = Inl TypeError"

text \<open>\<^verbatim>\<open>d.get(k)\<close> on a result dict, for reading the results.\<close>

fun py_get :: "json \<Rightarrow> string \<Rightarrow> json option" where
  "py_get (JObj kvs) k = map_of kvs k"
| "py_get _ k = None"

text \<open>\<^verbatim>\<open>for x in c\<close>: a list gives its elements, a dict its keys, a string its characters.\<close>

fun py_iter :: "json \<Rightarrow> error + json list" where
  "py_iter (JArr xs) = Inr xs"
| "py_iter (JObj kvs) = Inr (map (\<lambda>kv. JStr (fst kv)) kvs)"
| "py_iter (JStr s) = Inr (map (\<lambda>c. JStr [c]) s)"
| "py_iter _ = Inl TypeError"

text \<open>
  The first element of \<^verbatim>\<open>(x for x in xs if x[k] == v)\<close>: elements are tested in order
  and the generator stops at the first one that passes.
\<close>

fun first_match :: "json list \<Rightarrow> string \<Rightarrow> json \<Rightarrow> error + json option" where
  "first_match [] k v = Inr None"
| "first_match (x # xs) k v =
     (case py_getitem x k of
        Inl e \<Rightarrow> Inl e
      | Inr w \<Rightarrow> if py_eq w v then Inr (Some x) else first_match xs k v)"

text \<open>\<^verbatim>\<open>next((x for x in c if x[k] == v), None)\<close>\<close>

definition next_or_None :: "json \<Rightarrow> string \<Rightarrow> json \<Rightarrow> error + json" where
  "next_or_None c k v =
     (case py_iter c of
        Inl e \<Rightarrow> Inl e
      | Inr xs \<Rightarrow>
          (case first_match xs k v of
             Inl e \<Rightarrow> Inl e
           | Inr None \<Rightarrow> Inr JNull
           | Inr (Some x) \<Rightarrow> Inr x))"

text \<open>\<^verbatim>\<open>next((x for x in c if x[k] == v))\<close>: without a default, exhaustion raises.\<close>

definition next_plain :: "json \<Rightarrow> string \<Rightarrow> json \<Rightarrow> error + json" where
  "next_plain c k v =
     (case py_iter c of
        Inl e \<Rightarrow> Inl e
      | Inr xs \<Rightarrow>
          (case first_match xs k v of
             Inl e \<Rightarrow> Inl e
           | Inr None \<Rightarrow> Inl StopIteration
           | Inr (Some x) \<Rightarrow> Inr x))"

text \<open>\<^verbatim>\<open>sep.join(xs)\<close>\<close>

fun py_join :: "string \<Rightarrow> string list \<Rightarrow> string" where
  "py_join sep [] = []"
| "py_join sep [x] = x"
| "py_join sep (x # y # ys) = x @ sep @ py_join sep (y # ys)"

text \<open>\<^verbatim>\<open>d[k] = v\<close>: an existing key keeps its place, a new key goes last.\<close>

fun dict_set :: "(string \<times> json) list \<Rightarrow> string \<Rightarrow> json \<Rightarrow> (string \<times> json) list" where
  "dict_set [] k v = [(k, v)]"
| "dict_set ((k', v') # kvs) k v =
     (if k' = k then (k, v) # kvs else (k', v') # dict_set kvs k v)"

text \<open>\<^verbatim>\<open>payload["settings"][k] = v\<close>\<close>

fun set_setting :: "json \<Rightarrow> string \<Rightarrow> json \<Rightarrow> error + json" where
  "set_setting (JObj kvs) k v =
     (case map_of kvs ''settings'' of
        None \<Rightarrow> Inl KeyError
      | Some (JObj st) \<Rightarrow> Inr (JObj (dict_set kvs ''settings'' (JObj (dict_set st k v))))
      | Some _ \<Rightarrow> Inl TypeError)"
| "set_setting _ k v = Inl TypeError"

section \<open>The module parameters and the payload builder\<close>

text \<open>
  \<open>module.params\<close> after validation: every declared option is a key; an option without
  a default that was not given is \<open>None\<close>.
\<close>

record params =
  url :: string
  grafana_api_key :: "string option"
  url_username :: "string option"
  url_password :: "string option"
  org_id :: int
  org_name :: "string option"
  state :: string
  uid :: "string option"
  name :: "string option"
  type :: "string option"
  is_default :: bool
  include_image :: bool
  disable_resolve_message :: bool
  email_addresses :: "string list option"
  email_single :: "bool option"

definition grafana_contact_point_payload_email :: "params \<Rightarrow> json \<Rightarrow> error + json" where
  "grafana_contact_point_payload_email data payload =
     (case email_addresses data of
        None \<Rightarrow> Inl TypeError
      | Some addrs \<Rightarrow>
          (case set_setting payload ''addresses'' (JStr (py_join '';'' addrs)) of
             Inl e \<Rightarrow> Inl e
           | Inr payload' \<Rightarrow>
               (case email_single data of
                  None \<Rightarrow> Inr payload'
                | Some b \<Rightarrow>
                    if b then set_setting payload' ''singleEmail'' (JBool b)
                    else Inr payload')))"

definition grafana_contact_point_payload :: "params \<Rightarrow> error + json" where
  "grafana_contact_point_payload data =
     (let payload = JObj
        [(''uid'', opt_str (uid data)),
         (''name'', opt_str (name data)),
         (''type'', opt_str (type data)),
         (''isDefault'', JBool (is_default data)),
         (''disableResolveMessage'', JBool (disable_resolve_message data)),
         (''settings'', JObj [(''uploadImage'', JBool (include_image data))])]
      in if type data = Some ''email''
         then grafana_contact_point_payload_email data payload
         else Inr payload)"

section \<open>Requests, responses and the remote service\<close>

text \<open>
  \<^verbatim>\<open>fetch_url\<close> is the transport of the surrounding framework. A request is what the
  module passes to it; the body is the payload that \<^verbatim>\<open>json.dumps\<close> serialises. A
  response is the pair \<open>(r, info)\<close>: \<open>content\<close> is the value of
  \<^verbatim>\<open>json.loads(to_text(r.read()))\<close>, or \<open>None\<close> when that expression raises. The
  remote service is a state of any type \<open>'w\<close> with a function answering a request in a
  state; \<open>sent\<close> records the requests issued so far, in order.
\<close>

datatype header_value = HText string | HBasicAuth "string option" "string option"

record request =
  req_method :: string
  req_url :: string
  req_data :: "json option"
  req_headers :: "(string \<times> header_value) list"

record response =
  resp_info :: info
  content :: "json option"

type_synonym 'w transport = "'w \<Rightarrow> request \<Rightarrow> response \<times> 'w"

record 'w world =
  remote :: 'w
  sent :: "request list"

definition fetch_url :: "'w transport \<Rightarrow> request \<Rightarrow> 'w world \<Rightarrow> response \<times> 'w world" where
  "fetch_url tr rq wld =
     (case tr (remote wld) rq of
        (r, w') \<Rightarrow> (r, \<lparr>remote = w', sent = sent wld @ [rq]\<rparr>))"

section \<open>The interface object\<close>

text \<open>The attributes of a \<^verbatim>\<open>GrafanaContactPointInterface\<close> that its methods read.\<close>

record interface =
  self_headers :: "(string \<times> header_value) list"
  self_org_id :: "int option"

definition grafana_organization_by_name ::
  "'w transport \<Rightarrow> interface \<Rightarrow> params \<Rightarrow> string \<Rightarrow> 'w world \<Rightarrow> (error + json) \<times> 'w world"
where
  "grafana_organization_by_name tr self data org_name_arg wld =
     (case fetch_url tr
             \<lparr>req_method = ''GET'', req_url = url data @ ''/api/user/orgs'',
              req_data = None, req_headers = self_headers self\<rparr> wld of
        (r, wld') \<Rightarrow>
          (case content r of
             None \<Rightarrow> (Inl ReadError, wld')
           | Some organizations \<Rightarrow>
               (case next_plain organizations ''name'' (JStr org_name_arg) of
                  Inl e \<Rightarrow> (Inl e, wld')
                | Inr orga \<Rightarrow>
                    if py_truthy orga then (py_getitem orga ''orgId'', wld')
                    else (Inl (GrafanaAPIException
                                 ''Current user isn't member of organization: %s''
                                 [ArgStr org_name_arg]), wld'))))"

definition grafana_switch_organisation ::
  "'w transport \<Rightarrow> interface \<Rightarrow> params \<Rightarrow> int \<Rightarrow> 'w world \<Rightarrow> (error + unit) \<times> 'w world"
where
  "grafana_switch_organisation tr self data oid wld =
     (case fetch_url tr
             \<lparr>req_method = ''POST'',
              req_url = url data @ ''/api/user/using/'' @ str_int oid,
              req_data = None, req_headers = self_headers self\<rparr> wld of
        (r, wld') \<Rightarrow>
          if status (resp_info r) \<noteq> 200
          then (Inl (GrafanaAPIException ''Unable to switch to organization %s : %s''
                       [ArgInt oid, ArgInfo (resp_info r)]), wld')
          else (Inr (), wld'))"

text \<open>
  The constructor. With a non-empty API key the header is a bearer token and no request
  is made. Otherwise the header is the basic-authentication header, and the organisation
  is selected: when \<open>org_name\<close> is set, the constructor evaluates
  \<^verbatim>\<open>self.grafana_organization_by_name(module.params["org_name"])\<close>, a call with one
  positional argument of a method declared with two (\<open>data\<close>, \<open>org_name\<close>). Python
  rejects the call with \<open>TypeError\<close> when binding the arguments, before the body of the
  method runs; that is the value of this branch.
\<close>

definition basic_auth_init ::
  "'w transport \<Rightarrow> params \<Rightarrow> 'w world \<Rightarrow> (error + interface) \<times> 'w world"
where
  "basic_auth_init tr module_params wld =
     (let headers = [(''Content-Type'', HText ''application/json''),
                     (''Authorization'',
                        HBasicAuth (url_username module_params) (url_password module_params))]
      in if py_truthy (opt_str (org_name module_params))
         then (Inl TypeError, wld)
         else
           (case grafana_switch_organisation tr
                   \<lparr>self_headers = headers, self_org_id = Some (org_id module_params)\<rparr>
                   module_params (org_id module_params) wld of
              (Inl e, wld') \<Rightarrow> (Inl e, wld')
            | (Inr u, wld') \<Rightarrow>
                (Inr \<lparr>self_headers = headers, self_org_id = Some (org_id module_params)\<rparr>,
                 wld')))"

definition GrafanaContactPointInterface ::
  "'w transport \<Rightarrow> params \<Rightarrow> 'w world \<Rightarrow> (error + interface) \<times> 'w world"
where
  "GrafanaContactPointInterface tr module_params wld =
     (if py_truthy (opt_str (grafana_api_key module_params))
      then (Inr \<lparr>self_headers =
                   [(''Content-Type'', HText ''application/json''),
                    (''Authorization'',
                       HText (''Bearer '' @ str_opt (grafana_api_key module_params)))],
                 self_org_id = None\<rparr>, wld)
      else basic_auth_init tr module_params wld)"

section \<open>The reconciler\<close>

definition grafana_create_contact_point ::
  "'w transport \<Rightarrow> interface \<Rightarrow> params \<Rightarrow> json \<Rightarrow> 'w world \<Rightarrow> (error + json) \<times> 'w world"
where
  "grafana_create_contact_point tr self data payload wld =
     (case fetch_url tr
             \<lparr>req_method = ''POST'',
              req_url = url data @ ''/api/v1/provisioning/contact-points'',
              req_data = Some payload, req_headers = self_headers self\<rparr> wld of
        (r, wld') \<Rightarrow>
          if status (resp_info r) = 202
          then (case content r of
                  None \<Rightarrow> (Inl ReadError, wld')
                | Some contact_point \<Rightarrow>
                    (Inr (JObj [(''changed'', JBool True),
                                (''state'', JStr (state data)),
                                (''contact_point'', contact_point)]), wld'))
          else (Inl (GrafanaAPIException ''Unable to create contact point: %s''
                       [ArgInfo (resp_info r)]), wld'))"

definition grafana_update_contact_point ::
  "'w transport \<Rightarrow> interface \<Rightarrow> params \<Rightarrow> json \<Rightarrow> json \<Rightarrow> 'w world
     \<Rightarrow> (error + json) \<times> 'w world"
where
  "grafana_update_contact_point tr self data payload before wld =
     (case fetch_url tr
             \<lparr>req_method = ''PUT'',
              req_url = url data @ ''/api/v1/provisioning/contact-points/''
                          @ str_opt (uid data),
              req_data = Some payload, req_headers = self_headers self\<rparr> wld of
        (r, wld') \<Rightarrow>
          if status (resp_info r) = 202
          then (case content r of
                  None \<Rightarrow> (Inl ReadError, wld')
                | Some contact_point \<Rightarrow>
                    if py_eq before contact_point
                    then (Inr (JObj [(''changed'', JBool False)]), wld')
                    else (Inr (JObj [(''changed'', JBool True),
                                     (''diff'', JObj [(''before'', before),
                                                      (''after'', payload)]),
                                     (''contact_point'', contact_point)]), wld'))
          else (Inl (GrafanaAPIException ''Unable to update contact point %s : %s''
                       [arg_opt (uid data), ArgInfo (resp_info r)]), wld'))"

definition grafana_delete_contact_point ::
  "'w transport \<Rightarrow> interface \<Rightarrow> params \<Rightarrow> 'w world \<Rightarrow> (error + json) \<times> 'w world"
where
  "grafana_delete_contact_point tr self data wld =
     (case fetch_url tr
             \<lparr>req_method = ''DELETE'',
              req_url = url data @ ''/api/v1/provisioning/contact-points/''
                          @ str_opt (uid data),
              req_data = None, req_headers = self_headers self\<rparr> wld of
        (r, wld') \<Rightarrow>
          if status (resp_info r) = 202
          then (Inr (JObj [(''state'', JStr ''absent''), (''changed'', JBool True)]), wld')
          else if status (resp_info r) = 404
          then (Inr (JObj [(''changed'', JBool False)]), wld')
          else (Inl (GrafanaAPIException ''Unable to delete contact point %s : %s''
                       [arg_opt (uid data), ArgInfo (resp_info r)]), wld'))"

definition grafana_handle_contact_point ::
  "'w transport \<Rightarrow> interface \<Rightarrow> params \<Rightarrow> json \<Rightarrow> 'w world \<Rightarrow> (error + json) \<times> 'w world"
where
  "grafana_handle_contact_point tr self data before wld =
     (case grafana_contact_point_payload data of
        Inl e \<Rightarrow> (Inl e, wld)
      | Inr payload \<Rightarrow>
          if state data = ''present''
          then (if py_truthy before
                then grafana_update_contact_point tr self data payload before wld
                else grafana_create_contact_point tr self data payload wld)
          else (if py_truthy before
                then grafana_delete_contact_point tr self data wld
                else (Inr (JObj [(''changed'', JBool False)]), wld)))"

definition grafana_check_contact_point_match ::
  "'w transport \<Rightarrow> interface \<Rightarrow> params \<Rightarrow> 'w world \<Rightarrow> (error + json) \<times> 'w world"
where
  "grafana_check_contact_point_match tr self data wld =
     (case fetch_url tr
             \<lparr>req_method = ''GET'',
              req_url = url data @ ''/api/v1/provisioning/contact-points'',
              req_data = None, req_headers = self_headers self\<rparr> wld of
        (r, wld') \<Rightarrow>
          if status (resp_info r) = 200
          then (case content r of
                  None \<Rightarrow> (Inl ReadError, wld')
                | Some contact_points \<Rightarrow>
                    (case next_or_None contact_points ''uid'' (opt_str (uid data)) of
                       Inl e \<Rightarrow> (Inl e, wld')
                     | Inr before \<Rightarrow>
                         grafana_handle_contact_point tr self data before wld'))
          else (Inl (GrafanaAPIException ''Unable to get contact point %s : %s''
                       [arg_opt (uid data), ArgInfo (resp_info r)]), wld'))"

section \<open>Notions used to state the properties\<close>

text \<open>An entry of a listing whose \<open>uid\<close> equals (\<^verbatim>\<open>==\<close>) a given value.\<close>

definition has_uid :: "json \<Rightarrow> json \<Rightarrow> bool" where
  "has_uid cp v = (case py_getitem cp ''uid'' of Inl e \<Rightarrow> False | Inr u \<Rightarrow> py_eq u v)"

text \<open>A listing of resource objects: every entry is a dict with the key \<open>uid\<close>.\<close>

definition listing_ok :: "json list \<Rightarrow> bool" where
  "listing_ok cps =
     list_all (\<lambda>cp. case py_getitem cp ''uid'' of Inl e \<Rightarrow> False | Inr u \<Rightarrow> True) cps"

subsection \<open>Concrete inputs\<close>

text \<open>
  A remote service that answers the requests it receives with a prepared list of
  responses, one after the other.
\<close>

fun scripted :: "response list transport" where
  "scripted [] rq =
     (\<lparr>resp_info = \<lparr>status = - 1, msg = ''no response'', body = None\<rparr>, content = None\<rparr>, [])"
| "scripted (r # rs) rq = (r, rs)"

definition reply :: "int \<Rightarrow> json option \<Rightarrow> response" where
  "reply s c = \<lparr>resp_info = \<lparr>status = s, msg = [], body = None\<rparr>, content = c\<rparr>"

definition token_interface :: interface where
  "token_interface =
     \<lparr>self_headers = [(''Content-Type'', HText ''application/json''),
                      (''Authorization'', HText ''Bearer secret'')],
      self_org_id = None\<rparr>"

definition email_params :: params where
  "email_params =
     \<lparr>url = ''http://grafana'', grafana_api_key = Some ''secret'',
      url_username = Some ''admin'', url_password = Some ''admin'',
      org_id = 1, org_name = None, state = ''present'',
      uid = Some ''email'', name = Some ''E-Mail'', type = Some ''email'',
      is_default = False, include_image = False, disable_resolve_message = False,
      email_addresses = Some [''a@x.com'', ''b@x.com''], email_single = Some True\<rparr>"

definition email_payload :: json where
  "email_payload =
     JObj [(''uid'', JStr ''email''), (''name'', JStr ''E-Mail''), (''type'', JStr ''email''),
           (''isDefault'', JBool False), (''disableResolveMessage'', JBool False),
           (''settings'', JObj [(''uploadImage'', JBool False),
                                (''addresses'', JStr ''a@x.com;b@x.com''),
                                (''singleEmail'', JBool True)])]"

subsection \<open>A remote store\<close>

text \<open>
  The remote service is not part of the module. To state what two runs in a row do, the
  service is taken to be a store of contact points that serves the endpoints the module
  calls: its state is the list of the stored entries.
\<close>

text \<open>The item endpoint of a stored entry: the collection endpoint followed by its uid.\<close>

definition item_url :: "string \<Rightarrow> json \<Rightarrow> string option" where
  "item_url base e =
     (case py_getitem e ''uid'' of
        Inr (JStr u) \<Rightarrow> Some (base @ ''/api/v1/provisioning/contact-points/'' @ u)
      | _ \<Rightarrow> None)"

text \<open>
  The store answers the listing request with status 200 and what it holds; a POST to the
  collection appends the payload and is answered 202 with the payload; a PUT to the item
  endpoint of a stored entry replaces the entry by the payload and is answered 202 with
  the body \<open>ack payload\<close>; a DELETE of the item endpoint of a stored entry removes it
  and is answered 202; anything else is answered 404. With \<open>ack = id\<close> the store
  echoes what it has stored; \<open>ack_message\<close> is a store that acknowledges an update
  with a message.
\<close>

definition store_transport :: "string \<Rightarrow> (json \<Rightarrow> json) \<Rightarrow> json list transport" where
  "store_transport base ack s rq =
     (if req_method rq = ''GET''
         \<and> req_url rq = base @ ''/api/v1/provisioning/contact-points''
      then (reply 200 (Some (JArr s)), s)
      else if req_method rq = ''POST''
         \<and> req_url rq = base @ ''/api/v1/provisioning/contact-points''
      then (case req_data rq of
              None \<Rightarrow> (reply 400 None, s)
            | Some p \<Rightarrow> (reply 202 (Some p), s @ [p]))
      else if req_method rq = ''PUT''
         \<and> list_ex (\<lambda>e. item_url base e = Some (req_url rq)) s
      then (case req_data rq of
              None \<Rightarrow> (reply 400 None, s)
            | Some p \<Rightarrow>
                (reply 202 (Some (ack p)),
                 map (\<lambda>e. if item_url base e = Some (req_url rq) then p else e) s))
      else if req_method rq = ''DELETE''
         \<and> list_ex (\<lambda>e. item_url base e = Some (req_url rq)) s
      then (reply 202 (Some (JObj [(''message'', JStr ''deleted'')])),
            filter (\<lambda>e. item_url base e \<noteq> Some (req_url rq)) s)
      else (reply 404 None, s))"

text \<open>The entries of a store are dicts whose \<open>uid\<close> is a string.\<close>

definition store_ok :: "json list \<Rightarrow> bool" where
  "store_ok s =
     list_all (\<lambda>e. case py_getitem e ''uid'' of Inr (JStr u) \<Rightarrow> True | _ \<Rightarrow> False) s"

definition ack_message :: "json \<Rightarrow> json" where
  "ack_message p = JObj [(''message'', JStr ''contactpoint updated'')]"

section \<open>Auxiliary facts\<close>

lemma first_match_find:
  "listing_ok cps \<Longrightarrow> first_match cps ''uid'' v = Inr (find (\<lambda>cp. has_uid cp v) cps)"
  by (induction cps) (auto simp: listing_ok_def has_uid_def split: sum.splits)

lemma getitem_truthy: "py_getitem cp k = Inr u \<Longrightarrow> py_truthy cp"
  by (cases cp) (auto split: option.splits)

lemma next_or_None_listing:
  assumes "listing_ok cps"
  shows "next_or_None (JArr cps) ''uid'' v =
           Inr (case find (\<lambda>cp. has_uid cp v) cps of None \<Rightarrow> JNull | Some cp \<Rightarrow> cp)"
  using assms by (simp add: next_or_None_def first_match_find split: option.splits)

lemma found_truthy:
  assumes "listing_ok cps"
  shows "py_truthy (case find (\<lambda>cp. has_uid cp v) cps of None \<Rightarrow> JNull | Some cp \<Rightarrow> cp)
           \<longleftrightarrow> (\<exists>cp\<in>set cps. has_uid cp v)"
proof (cases "find (\<lambda>cp. has_uid cp v) cps")
  case None
  moreover from None have "\<not> (\<exists>cp\<in>set cps. has_uid cp v)"
    by (simp add: find_None_iff)
  ultimately show ?thesis by simp
next
  case (Some cp)
  then have "cp \<in> set cps" and h: "has_uid cp v"
    by (auto simp: find_Some_iff)
  from h have "py_truthy cp"
    by (auto simp: has_uid_def split: sum.splits dest: getitem_truthy)
  with Some \<open>cp \<in> set cps\<close> h show ?thesis by auto
qed

lemma sent_create:
  "sent (snd (grafana_create_contact_point tr self data payload wld)) =
     sent wld @ [\<lparr>req_method = ''POST'',
                  req_url = url data @ ''/api/v1/provisioning/contact-points'',
                  req_data = Some payload, req_headers = self_headers self\<rparr>]"
  by (auto simp: grafana_create_contact_point_def fetch_url_def split: prod.splits option.splits)

lemma sent_update:
  "sent (snd (grafana_update_contact_point tr self data payload before wld)) =
     sent wld @ [\<lparr>req_method = ''PUT'',
                  req_url = url data @ ''/api/v1/provisioning/contact-points/''
                              @ str_opt (uid data),
                  req_data = Some payload, req_headers = self_headers self\<rparr>]"
  by (auto simp: grafana_update_contact_point_def fetch_url_def split: prod.splits option.splits)

lemma sent_delete:
  "sent (snd (grafana_delete_contact_point tr self data wld)) =
     sent wld @ [\<lparr>req_method = ''DELETE'',
                  req_url = url data @ ''/api/v1/provisioning/contact-points/''
                              @ str_opt (uid data),
                  req_data = None, req_headers = self_headers self\<rparr>]"
  by (auto simp: grafana_delete_contact_point_def fetch_url_def split: prod.splits)

lemma check_match_200:
  assumes "tr (remote wld)
             \<lparr>req_method = ''GET'',
              req_url = url data @ ''/api/v1/provisioning/contact-points'',
              req_data = None, req_headers = self_headers self\<rparr> = (r, w1)"
    and "status (resp_info r) = 200"
    and "content r = Some (JArr cps)"
    and wf: "listing_ok cps"
  shows "grafana_check_contact_point_match tr self data wld =
           grafana_handle_contact_point tr self data
             (case find (\<lambda>cp. has_uid cp (opt_str (uid data))) cps of
                None \<Rightarrow> JNull | Some cp \<Rightarrow> cp)
             \<lparr>remote = w1,
              sent = sent wld @ [\<lparr>req_method = ''GET'',
                   req_url = url data @ ''/api/v1/provisioning/contact-points'',
                   req_data = None, req_headers = self_headers self\<rparr>]\<rparr>"
  using assms(1-3)
  by (simp add: grafana_check_contact_point_match_def fetch_url_def next_or_None_listing [OF wf])

lemma email_payload_built: "grafana_contact_point_payload email_params = Inr email_payload"
  by (simp add: grafana_contact_point_payload_def grafana_contact_point_payload_email_def
      email_params_def email_payload_def)

lemma create_result:
  "fst (grafana_create_contact_point tr self data payload wld) = Inr res \<Longrightarrow>
     py_get res ''changed'' = Some (JBool True) \<and> py_get res ''diff'' = None"
  by (auto simp: grafana_create_contact_point_def fetch_url_def
      split: prod.splits option.splits if_splits)

lemma delete_result:
  "fst (grafana_delete_contact_point tr self data wld) = Inr res \<Longrightarrow>
     py_get res ''diff'' = None"
  by (auto simp: grafana_delete_contact_point_def fetch_url_def
      split: prod.splits if_splits)

lemma update_result:
  "fst (grafana_update_contact_point tr self data payload before wld) = Inr res \<Longrightarrow>
     py_get res ''changed'' = Some (JBool True) \<Longrightarrow>
     py_get res ''diff'' = Some (JObj [(''before'', before), (''after'', payload)])"
  by (auto simp: grafana_update_contact_point_def fetch_url_def
      split: prod.splits option.splits if_splits)

lemma update_unchanged:
  "fst (grafana_update_contact_point tr self data payload before wld) = Inr res \<Longrightarrow>
     py_get res ''changed'' = Some (JBool False) \<Longrightarrow> res = JObj [(''changed'', JBool False)]"
  by (auto simp: grafana_update_contact_point_def fetch_url_def
      split: prod.splits option.splits if_splits)

lemma delete_unchanged:
  "fst (grafana_delete_contact_point tr self data wld) = Inr res \<Longrightarrow>
     py_get res ''changed'' = Some (JBool False) \<Longrightarrow> res = JObj [(''changed'', JBool False)]"
  by (auto simp: grafana_delete_contact_point_def fetch_url_def
      split: prod.splits option.splits if_splits)

lemma handle_unchanged:
  "fst (grafana_handle_contact_point tr self data before wld) = Inr res \<Longrightarrow>
     py_get res ''changed'' = Some (JBool False) \<Longrightarrow> res = JObj [(''changed'', JBool False)]"
  by (auto simp: grafana_handle_contact_point_def
      split: sum.splits if_splits
      dest: create_result update_unchanged delete_unchanged)

lemma handle_diff:
  assumes "fst (grafana_handle_contact_point tr self data before wld) = Inr res"
    and "py_get res ''changed'' = Some (JBool True)"
  shows "(req_method (last (sent (snd (grafana_handle_contact_point tr self data before wld))))
            = ''PUT'' \<longrightarrow>
          (\<exists>payload. grafana_contact_point_payload data = Inr payload \<and>
             py_get res ''diff'' = Some (JObj [(''before'', before), (''after'', payload)])))
       \<and> (req_method (last (sent (snd (grafana_handle_contact_point tr self data before wld))))
            \<noteq> ''PUT'' \<longrightarrow> py_get res ''diff'' = None)"
  using assms
  by (auto simp: grafana_handle_contact_point_def sent_create sent_update sent_delete
      split: sum.splits if_splits
      dest: create_result delete_result update_result)

lemma find_truthy:
  assumes "listing_ok cps" and "find (\<lambda>cp. has_uid cp v) cps = Some b"
  shows "py_truthy b"
  using found_truthy [OF assms(1), of v] assms(2)
  by (auto simp: find_Some_iff)

lemma first_match_Some_find:
  "first_match cps ''uid'' v = Inr (Some b) \<Longrightarrow> find (\<lambda>cp. has_uid cp v) cps = Some b"
  by (induction cps) (auto simp: has_uid_def split: sum.splits if_splits)

lemma first_match_strings:
  "first_match (map f xs) k v = Inr (Some b) \<Longrightarrow> \<forall>x. \<exists>s. f x = JStr s \<Longrightarrow> False"
proof (induction xs)
  case Nil
  then show ?case by simp
next
  case (Cons x xs)
  from Cons.prems(2) obtain s where "f x = JStr s" by blast
  with Cons.prems(1) show ?case by simp
qed

lemma next_or_None_truthy:
  assumes "next_or_None c ''uid'' v = Inr b" and "py_truthy b"
  shows "\<exists>cps. c = JArr cps \<and> find (\<lambda>cp. has_uid cp v) cps = Some b"
proof (cases c)
  case (JArr cps)
  with assms show ?thesis
    by (auto simp: next_or_None_def split: sum.splits option.splits
        dest: first_match_Some_find)
next
  case (JObj kvs)
  with assms have "first_match (map (\<lambda>kv. JStr (fst kv)) kvs) ''uid'' v = Inr (Some b)"
    by (auto simp: next_or_None_def split: sum.splits option.splits)
  then have False by (rule first_match_strings) blast
  then show ?thesis ..
next
  case (JStr s)
  with assms have "first_match (map (\<lambda>c. JStr [c]) s) ''uid'' v = Inr (Some b)"
    by (auto simp: next_or_None_def split: sum.splits option.splits)
  then have False by (rule first_match_strings) blast
  then show ?thesis ..
qed (use assms in \<open>auto simp: next_or_None_def\<close>)

lemma handle_put_truthy:
  assumes "fst (grafana_handle_contact_point tr self data before wld) = Inr res"
    and "req_method (last (sent (snd (grafana_handle_contact_point tr self data before wld))))
           = ''PUT''"
    and "req_method (last (sent wld)) \<noteq> ''PUT''"
  shows "py_truthy before"
  using assms
  by (auto simp: grafana_handle_contact_point_def sent_create sent_update sent_delete
      split: sum.splits if_splits)

subsection \<open>Runs against the remote store\<close>

lemma store_ok_listing: "store_ok s \<Longrightarrow> listing_ok s"
  by (auto simp: store_ok_def listing_ok_def list_all_iff split: sum.splits json.splits)

lemma item_url_has_uid:
  assumes "case py_getitem e ''uid'' of Inr (JStr x) \<Rightarrow> True | _ \<Rightarrow> False"
  shows "item_url base e = Some (base @ ''/api/v1/provisioning/contact-points/'' @ u)
           \<longleftrightarrow> has_uid e (JStr u)"
  using assms
  by (auto simp: item_url_def has_uid_def split: sum.splits json.splits)

lemma payload_uid:
  assumes "grafana_contact_point_payload data = Inr p"
  shows "py_getitem p ''uid'' = Inr (opt_str (uid data))"
  using assms
  by (auto simp: grafana_contact_point_payload_def grafana_contact_point_payload_email_def
      Let_def split: if_splits option.splits)

lemma store_get:
  "store_transport base ack s
     \<lparr>req_method = ''GET'', req_url = base @ ''/api/v1/provisioning/contact-points'',
      req_data = None, req_headers = hs\<rparr> = (reply 200 (Some (JArr s)), s)"
  by (simp add: store_transport_def)

lemma store_post:
  "store_transport base ack s
     \<lparr>req_method = ''POST'', req_url = base @ ''/api/v1/provisioning/contact-points'',
      req_data = Some p, req_headers = hs\<rparr> = (reply 202 (Some p), s @ [p])"
  by (simp add: store_transport_def)

lemma store_ex:
  assumes "store_ok s"
  shows "list_ex (\<lambda>e. item_url base e =
                    Some (base @ ''/api/v1/provisioning/contact-points/'' @ u)) s
           \<longleftrightarrow> (\<exists>e\<in>set s. has_uid e (JStr u))"
proof -
  have "\<And>e. e \<in> set s \<Longrightarrow>
          (item_url base e = Some (base @ ''/api/v1/provisioning/contact-points/'' @ u))
            = has_uid e (JStr u)"
    using assms by (intro item_url_has_uid) (simp add: store_ok_def list_all_iff)
  then show ?thesis
    unfolding list_ex_iff by blast
qed

lemma store_put:
  assumes "store_ok s" and "\<exists>e\<in>set s. has_uid e (JStr u)"
  shows "store_transport base ack s
     \<lparr>req_method = ''PUT'',
      req_url = base @ ''/api/v1/provisioning/contact-points/'' @ u,
      req_data = Some p, req_headers = hs\<rparr> =
     (reply 202 (Some (ack p)), map (\<lambda>e. if has_uid e (JStr u) then p else e) s)"
proof -
  have "map (\<lambda>e. if item_url base e =
                     Some (base @ ''/api/v1/provisioning/contact-points/'' @ u)
                  then p else e) s
        = map (\<lambda>e. if has_uid e (JStr u) then p else e) s"
  proof (intro map_cong refl)
    fix e assume "e \<in> set s"
    with assms(1) have "(item_url base e =
                           Some (base @ ''/api/v1/provisioning/contact-points/'' @ u))
                          = has_uid e (JStr u)"
      by (intro item_url_has_uid) (simp add: store_ok_def list_all_iff)
    then show "(if item_url base e =
                     Some (base @ ''/api/v1/provisioning/contact-points/'' @ u)
                then p else e) = (if has_uid e (JStr u) then p else e)"
      by (rule arg_cong [where f = "\<lambda>b. if b then p else e"])
  qed
  with assms store_ex [OF assms(1), of base u] show ?thesis
    by (simp add: store_transport_def)
qed

lemma store_delete:
  assumes "store_ok s" and "\<exists>e\<in>set s. has_uid e (JStr u)"
  shows "store_transport base ack s
     \<lparr>req_method = ''DELETE'',
      req_url = base @ ''/api/v1/provisioning/contact-points/'' @ u,
      req_data = None, req_headers = hs\<rparr> =
     (reply 202 (Some (JObj [(''message'', JStr ''deleted'')])),
      filter (\<lambda>e. \<not> has_uid e (JStr u)) s)"
proof -
  have "filter (\<lambda>e. item_url base e \<noteq>
                     Some (base @ ''/api/v1/provisioning/contact-points/'' @ u)) s
        = filter (\<lambda>e. \<not> has_uid e (JStr u)) s"
  proof (intro filter_cong refl)
    fix e assume "e \<in> set s"
    with assms(1) have "(item_url base e =
                           Some (base @ ''/api/v1/provisioning/contact-points/'' @ u))
                          = has_uid e (JStr u)"
      by (intro item_url_has_uid) (simp add: store_ok_def list_all_iff)
    then show "(item_url base e \<noteq>
                     Some (base @ ''/api/v1/provisioning/contact-points/'' @ u))
                = (\<not> has_uid e (JStr u))"
      by (rule arg_cong [where f = Not])
  qed
  with assms store_ex [OF assms(1), of base u] show ?thesis
    by (simp add: store_transport_def)
qed

lemma find_replaced:
  assumes "\<exists>e\<in>set s. P e" and "P p"
  shows "find P (map (\<lambda>e. if P e then p else e) s) = Some p"
  using assms by (induction s) auto

lemma find_appended:
  assumes "\<not> (\<exists>e\<in>set s. P e)" and "P p"
  shows "find P (s @ [p]) = Some p"
  using assms by (induction s) auto

lemma find_removed: "find P (filter (\<lambda>e. \<not> P e) s) = None"
  by (induction s) auto

lemma store_listing:
  assumes "store_ok s" and "remote wld = s"
  shows "grafana_check_contact_point_match (store_transport (url data) ack) self data wld =
           grafana_handle_contact_point (store_transport (url data) ack) self data
             (case find (\<lambda>cp. has_uid cp (opt_str (uid data))) s of
                None \<Rightarrow> JNull | Some cp \<Rightarrow> cp)
             \<lparr>remote = s,
              sent = sent wld @ [\<lparr>req_method = ''GET'',
                   req_url = url data @ ''/api/v1/provisioning/contact-points'',
                   req_data = None, req_headers = self_headers self\<rparr>]\<rparr>"
proof (rule check_match_200)
  show "store_transport (url data) ack (remote wld)
          \<lparr>req_method = ''GET'',
           req_url = url data @ ''/api/v1/provisioning/contact-points'',
           req_data = None, req_headers = self_headers self\<rparr>
        = (reply 200 (Some (JArr s)), s)"
    using assms(2) by (simp only: store_get)
  show "status (resp_info (reply 200 (Some (JArr s)))) = 200"
    by (simp add: reply_def)
  show "content (reply 200 (Some (JArr s))) = Some (JArr s)"
    by (simp add: reply_def)
  show "listing_ok s"
    using assms(1) by (rule store_ok_listing)
qed

lemma run_absent_nomatch:
  assumes "store_ok s" and "remote wld = s" and "uid data = Some u"
    and "grafana_contact_point_payload data = Inr p"
    and "state data \<noteq> ''present''"
    and "\<not> (\<exists>e\<in>set s. has_uid e (JStr u))"
  shows "fst (grafana_check_contact_point_match (store_transport (url data) ack) self data wld)
           = Inr (JObj [(''changed'', JBool False)])"
    and "remote (snd (grafana_check_contact_point_match (store_transport (url data) ack)
                        self data wld)) = s"
  using assms found_truthy [OF store_ok_listing [OF assms(1)], of "JStr u"]
  by (simp_all add: store_listing [OF assms(1,2)] grafana_handle_contact_point_def)

lemma run_absent_match:
  assumes "store_ok s" and "remote wld = s" and "uid data = Some u"
    and "grafana_contact_point_payload data = Inr p"
    and "state data \<noteq> ''present''"
    and "\<exists>e\<in>set s. has_uid e (JStr u)"
  shows "fst (grafana_check_contact_point_match (store_transport (url data) ack) self data wld)
           = Inr (JObj [(''state'', JStr ''absent''), (''changed'', JBool True)])"
    and "remote (snd (grafana_check_contact_point_match (store_transport (url data) ack)
                        self data wld)) = filter (\<lambda>e. \<not> has_uid e (JStr u)) s"
  using assms found_truthy [OF store_ok_listing [OF assms(1)], of "JStr u"]
  by (simp_all add: store_listing [OF assms(1,2)] grafana_handle_contact_point_def
      grafana_delete_contact_point_def fetch_url_def store_delete [OF assms(1,6), simplified] reply_def)

lemma run_present_nomatch:
  assumes "store_ok s" and "remote wld = s" and "uid data = Some u"
    and "grafana_contact_point_payload data = Inr p"
    and "state data = ''present''"
    and "\<not> (\<exists>e\<in>set s. has_uid e (JStr u))"
  shows "fst (grafana_check_contact_point_match (store_transport (url data) ack) self data wld)
           = Inr (JObj [(''changed'', JBool True), (''state'', JStr ''present''),
                        (''contact_point'', p)])"
    and "remote (snd (grafana_check_contact_point_match (store_transport (url data) ack)
                        self data wld)) = s @ [p]"
  using assms found_truthy [OF store_ok_listing [OF assms(1)], of "JStr u"]
  by (simp_all add: store_listing [OF assms(1,2)] grafana_handle_contact_point_def
      grafana_create_contact_point_def fetch_url_def store_post reply_def)

lemma run_present_match:
  assumes "store_ok s" and "remote wld = s" and "uid data = Some u"
    and "grafana_contact_point_payload data = Inr p"
    and "state data = ''present''"
    and "find (\<lambda>e. has_uid e (JStr u)) s = Some b"
  shows "fst (grafana_check_contact_point_match (store_transport (url data) ack) self data wld)
           = Inr (if py_eq b (ack p)
                  then JObj [(''changed'', JBool False)]
                  else JObj [(''changed'', JBool True),
                             (''diff'', JObj [(''before'', b), (''after'', p)]),
                             (''contact_point'', ack p)])"
    and "remote (snd (grafana_check_contact_point_match (store_transport (url data) ack)
                        self data wld)) = map (\<lambda>e. if has_uid e (JStr u) then p else e) s"
proof -
  from assms(6) have ex: "\<exists>e\<in>set s. has_uid e (JStr u)"
    by (auto simp: find_Some_iff)
  with found_truthy [OF store_ok_listing [OF assms(1)], of "JStr u"] assms(6)
  have t: "py_truthy b" by simp
  show "fst (grafana_check_contact_point_match (store_transport (url data) ack) self data wld)
           = Inr (if py_eq b (ack p)
                  then JObj [(''changed'', JBool False)]
                  else JObj [(''changed'', JBool True),
                             (''diff'', JObj [(''before'', b), (''after'', p)]),
                             (''contact_point'', ack p)])"
    using assms t
    by (simp add: store_listing [OF assms(1,2)] grafana_handle_contact_point_def
        grafana_update_contact_point_def fetch_url_def store_put [OF assms(1) ex, simplified] reply_def)
  show "remote (snd (grafana_check_contact_point_match (store_transport (url data) ack)
                        self data wld)) = map (\<lambda>e. if has_uid e (JStr u) then p else e) s"
    using assms t
    by (simp add: store_listing [OF assms(1,2)] grafana_handle_contact_point_def
        grafana_update_contact_point_def fetch_url_def store_put [OF assms(1) ex, simplified] reply_def)
qed

lemma payload_entry:
  assumes "grafana_contact_point_payload data = Inr p" and "uid data = Some u"
  shows "has_uid p (JStr u)"
    and "case py_getitem p ''uid'' of Inr (JStr x) \<Rightarrow> True | _ \<Rightarrow> False"
  using payload_uid [OF assms(1)] assms(2)
  by (simp_all add: has_uid_def)

lemma rerun_present:
  assumes ok: "store_ok s'" and rem: "remote wld' = s'" and u: "uid data = Some u"
    and p: "grafana_contact_point_payload data = Inr p"
    and st: "state data = ''present''"
    and f: "find (\<lambda>e. has_uid e (JStr u)) s' = Some p"
  shows "fst (grafana_check_contact_point_match (store_transport (url data) ack) self data wld')
           = Inr (if state data = ''present'' \<and> \<not> py_eq p (ack p)
                  then JObj [(''changed'', JBool True),
                             (''diff'', JObj [(''before'', p), (''after'', p)]),
                             (''contact_point'', ack p)]
                  else JObj [(''changed'', JBool False)])"
  using run_present_match(1) [OF ok rem u p st f, of ack self] st by simp

section \<open>Properties of the module\<close>

text \<open>
  C1. The action of a run is determined by the target presence and by the entry of the
  listing that has the desired uid (\<open>find\<close> gives the first such entry, and \<open>None\<close>
  when the listing has none). After the listing request, with \<open>state = present\<close> and no
  such entry the run is the Create: the built payload is sent with POST to the collection
  and the answer decides the result. With \<open>state = present\<close> and such an entry the run
  is the Update: the payload is sent with PUT to the item endpoint and the answer is
  compared with that entry. With another state and such an entry the run is the Delete:
  DELETE is sent to the item endpoint. With another state and no such entry no further
  request is sent, the remote service is as the listing left it, and the result is
  \<open>{changed: false}\<close>. In every case the remote service is left in the state the
  transport returned for the last request.
\<close>

theorem reconciler_decision:
  assumes payload: "grafana_contact_point_payload data = Inr payload"
    and fetch: "tr (remote wld)
                  \<lparr>req_method = ''GET'',
                   req_url = url data @ ''/api/v1/provisioning/contact-points'',
                   req_data = None, req_headers = self_headers self\<rparr> = (r, w1)"
    and ok: "status (resp_info r) = 200"
    and listing: "content r = Some (JArr cps)"
    and wf: "listing_ok cps"
  shows "grafana_check_contact_point_match tr self data wld =
    (if state data = ''present''
     then (case find (\<lambda>cp. has_uid cp (opt_str (uid data))) cps of
             None \<Rightarrow>
               (case tr w1 \<lparr>req_method = ''POST'',
                            req_url = url data @ ''/api/v1/provisioning/contact-points'',
                            req_data = Some payload, req_headers = self_headers self\<rparr> of
                  (r2, w2) \<Rightarrow>
                    (if status (resp_info r2) = 202
                     then (case content r2 of
                             None \<Rightarrow> Inl ReadError
                           | Some contact_point \<Rightarrow>
                               Inr (JObj [(''changed'', JBool True),
                                          (''state'', JStr (state data)),
                                          (''contact_point'', contact_point)]))
                     else Inl (GrafanaAPIException ''Unable to create contact point: %s''
                                 [ArgInfo (resp_info r2)]),
                     \<lparr>remote = w2,
                      sent = sent wld @
                        [\<lparr>req_method = ''GET'',
                          req_url = url data @ ''/api/v1/provisioning/contact-points'',
                          req_data = None, req_headers = self_headers self\<rparr>,
                         \<lparr>req_method = ''POST'',
                          req_url = url data @ ''/api/v1/provisioning/contact-points'',
                          req_data = Some payload, req_headers = self_headers self\<rparr>]\<rparr>))
           | Some before \<Rightarrow>
               (case tr w1 \<lparr>req_method = ''PUT'',
                            req_url = url data @ ''/api/v1/provisioning/contact-points/''
                                        @ str_opt (uid data),
                            req_data = Some payload, req_headers = self_headers self\<rparr> of
                  (r2, w2) \<Rightarrow>
                    (if status (resp_info r2) = 202
                     then (case content r2 of
                             None \<Rightarrow> Inl ReadError
                           | Some contact_point \<Rightarrow>
                               Inr (if py_eq before contact_point
                                    then JObj [(''changed'', JBool False)]
                                    else JObj [(''changed'', JBool True),
                                               (''diff'', JObj [(''before'', before),
                                                                (''after'', payload)]),
                                               (''contact_point'', contact_point)]))
                     else Inl (GrafanaAPIException ''Unable to update contact point %s : %s''
                                 [arg_opt (uid data), ArgInfo (resp_info r2)]),
                     \<lparr>remote = w2,
                      sent = sent wld @
                        [\<lparr>req_method = ''GET'',
                          req_url = url data @ ''/api/v1/provisioning/contact-points'',
                          req_data = None, req_headers = self_headers self\<rparr>,
                         \<lparr>req_method = ''PUT'',
                          req_url = url data @ ''/api/v1/provisioning/contact-points/''
                                      @ str_opt (uid data),
                          req_data = Some payload, req_headers = self_headers self\<rparr>]\<rparr>)))
     else (case find (\<lambda>cp. has_uid cp (opt_str (uid data))) cps of
             None \<Rightarrow>
               (Inr (JObj [(''changed'', JBool False)]),
                \<lparr>remote = w1,
                 sent = sent wld @
                   [\<lparr>req_method = ''GET'',
                     req_url = url data @ ''/api/v1/provisioning/contact-points'',
                     req_data = None, req_headers = self_headers self\<rparr>]\<rparr>)
           | Some before \<Rightarrow>
               (case tr w1 \<lparr>req_method = ''DELETE'',
                            req_url = url data @ ''/api/v1/provisioning/contact-points/''
                                        @ str_opt (uid data),
                            req_data = None, req_headers = self_headers self\<rparr> of
                  (r2, w2) \<Rightarrow>
                    (if status (resp_info r2) = 202
                     then Inr (JObj [(''state'', JStr ''absent''), (''changed'', JBool True)])
                     else if status (resp_info r2) = 404
                     then Inr (JObj [(''changed'', JBool False)])
                     else Inl (GrafanaAPIException ''Unable to delete contact point %s : %s''
                                 [arg_opt (uid data), ArgInfo (resp_info r2)]),
                     \<lparr>remote = w2,
                      sent = sent wld @
                        [\<lparr>req_method = ''GET'',
                          req_url = url data @ ''/api/v1/provisioning/contact-points'',
                          req_data = None, req_headers = self_headers self\<rparr>,
                         \<lparr>req_method = ''DELETE'',
                          req_url = url data @ ''/api/v1/provisioning/contact-points/''
                                      @ str_opt (uid data),
                          req_data = None, req_headers = self_headers self\<rparr>]\<rparr>))))"
proof -
  note run = check_match_200 [of tr wld data self r w1 cps, OF fetch ok listing wf]
  show ?thesis
  proof (cases "find (\<lambda>cp. has_uid cp (opt_str (uid data))) cps")
    case None
    with payload show ?thesis
      unfolding run
      by (simp add: grafana_handle_contact_point_def grafana_create_contact_point_def
          fetch_url_def split: prod.splits option.splits)
  next
    case (Some b)
    from find_truthy [OF wf Some] have t: "py_truthy b" .
    from payload Some t show ?thesis
      unfolding run
      by (simp add: grafana_handle_contact_point_def grafana_update_contact_point_def
          grafana_delete_contact_point_def fetch_url_def split: prod.splits option.splits)
  qed
qed

theorem reconciler_decision_witness:
  "grafana_check_contact_point_match scripted token_interface
       (email_params\<lparr>state := ''absent''\<rparr>)
       \<lparr>remote = [reply 200 (Some (JArr []))], sent = []\<rparr>
     = (Inr (JObj [(''changed'', JBool False)]),
        \<lparr>remote = [],
         sent = [\<lparr>req_method = ''GET'',
                  req_url = ''http://grafana/api/v1/provisioning/contact-points'',
                  req_data = None, req_headers = self_headers token_interface\<rparr>]\<rparr>)
   \<and> grafana_check_contact_point_match scripted token_interface email_params
       \<lparr>remote = [reply 200 (Some (JArr [])), reply 202 (Some email_payload)], sent = []\<rparr>
     = (Inr (JObj [(''changed'', JBool True), (''state'', JStr ''present''),
                   (''contact_point'', email_payload)]),
        \<lparr>remote = [],
         sent = [\<lparr>req_method = ''GET'',
                  req_url = ''http://grafana/api/v1/provisioning/contact-points'',
                  req_data = None, req_headers = self_headers token_interface\<rparr>,
                 \<lparr>req_method = ''POST'',
                  req_url = ''http://grafana/api/v1/provisioning/contact-points'',
                  req_data = Some email_payload,
                  req_headers = self_headers token_interface\<rparr>]\<rparr>)
   \<and> grafana_check_contact_point_match scripted token_interface email_params
       \<lparr>remote = [reply 200 (Some (JArr [JObj [(''uid'', JStr ''email'')]])),
                  reply 202 (Some email_payload)], sent = []\<rparr>
     = (Inr (JObj [(''changed'', JBool True),
                   (''diff'', JObj [(''before'', JObj [(''uid'', JStr ''email'')]),
                                    (''after'', email_payload)]),
                   (''contact_point'', email_payload)]),
        \<lparr>remote = [],
         sent = [\<lparr>req_method = ''GET'',
                  req_url = ''http://grafana/api/v1/provisioning/contact-points'',
                  req_data = None, req_headers = self_headers token_interface\<rparr>,
                 \<lparr>req_method = ''PUT'',
                  req_url = ''http://grafana/api/v1/provisioning/contact-points/email'',
                  req_data = Some email_payload,
                  req_headers = self_headers token_interface\<rparr>]\<rparr>)
   \<and> grafana_check_contact_point_match scripted token_interface
       (email_params\<lparr>state := ''absent''\<rparr>)
       \<lparr>remote = [reply 200 (Some (JArr [email_payload])), reply 202 None], sent = []\<rparr>
     = (Inr (JObj [(''state'', JStr ''absent''), (''changed'', JBool True)]),
        \<lparr>remote = [],
         sent = [\<lparr>req_method = ''GET'',
                  req_url = ''http://grafana/api/v1/provisioning/contact-points'',
                  req_data = None, req_headers = self_headers token_interface\<rparr>,
                 \<lparr>req_method = ''DELETE'',
                  req_url = ''http://grafana/api/v1/provisioning/contact-points/email'',
                  req_data = None, req_headers = self_headers token_interface\<rparr>]\<rparr>)"
proof -
  let ?absent = "email_params\<lparr>state := ''absent''\<rparr>"
  let ?old = "JObj [(''uid'', JStr ''email'')]"
  have pa: "grafana_contact_point_payload ?absent = Inr email_payload"
    by (simp add: grafana_contact_point_payload_def grafana_contact_point_payload_email_def
        email_params_def email_payload_def)
  have st: "\<And>c. status (resp_info (reply 200 c)) = 200"
    and ct: "\<And>c. content (reply 200 c) = c"
    by (simp_all add: reply_def)
  have l0: "listing_ok []" and l1: "listing_ok [?old]" and l2: "listing_ok [email_payload]"
    by (simp_all add: listing_ok_def email_payload_def)
  have f1: "has_uid ?old (JStr ''email'')"
    and f2: "has_uid email_payload (JStr ''email'')"
    by (simp_all add: has_uid_def email_payload_def)
  have n: "\<not> py_eq ?old email_payload"
    by (simp add: email_payload_def)
  have u: "uid email_params = Some ''email''" "url email_params = ''http://grafana''"
    "state email_params = ''present''"
    by (simp_all add: email_params_def)
  have noop: "scripted (remote \<lparr>remote = [reply 200 (Some (JArr []))], sent = []\<rparr>)
              \<lparr>req_method = ''GET'',
               req_url = url ?absent @ ''/api/v1/provisioning/contact-points'',
               req_data = None, req_headers = self_headers token_interface\<rparr>
            = (reply 200 (Some (JArr [])), [])"
    by simp
  have create: "scripted (remote \<lparr>remote = [reply 200 (Some (JArr [])),
                                            reply 202 (Some email_payload)], sent = []\<rparr>)
              \<lparr>req_method = ''GET'',
               req_url = url email_params @ ''/api/v1/provisioning/contact-points'',
               req_data = None, req_headers = self_headers token_interface\<rparr>
            = (reply 200 (Some (JArr [])), [reply 202 (Some email_payload)])"
    by simp
  have update: "scripted (remote \<lparr>remote = [reply 200 (Some (JArr [?old])),
                                            reply 202 (Some email_payload)], sent = []\<rparr>)
              \<lparr>req_method = ''GET'',
               req_url = url email_params @ ''/api/v1/provisioning/contact-points'',
               req_data = None, req_headers = self_headers token_interface\<rparr>
            = (reply 200 (Some (JArr [?old])), [reply 202 (Some email_payload)])"
    by simp
  have delete: "scripted (remote \<lparr>remote = [reply 200 (Some (JArr [email_payload])),
                                            reply 202 None], sent = []\<rparr>)
              \<lparr>req_method = ''GET'',
               req_url = url ?absent @ ''/api/v1/provisioning/contact-points'',
               req_data = None, req_headers = self_headers token_interface\<rparr>
            = (reply 200 (Some (JArr [email_payload])), [reply 202 None])"
    by simp
  from reconciler_decision
         [where tr = scripted and self = token_interface
            and wld = "\<lparr>remote = [reply 200 (Some (JArr []))], sent = []\<rparr>",
          OF pa noop st ct l0]
       reconciler_decision
         [where tr = scripted and self = token_interface
            and wld = "\<lparr>remote = [reply 200 (Some (JArr [])),
                                 reply 202 (Some email_payload)], sent = []\<rparr>",
          OF email_payload_built create st ct l0]
       reconciler_decision
         [where tr = scripted and self = token_interface
            and wld = "\<lparr>remote = [reply 200 (Some (JArr [?old])),
                                 reply 202 (Some email_payload)], sent = []\<rparr>",
          OF email_payload_built update st ct l1]
       reconciler_decision
         [where tr = scripted and self = token_interface
            and wld = "\<lparr>remote = [reply 200 (Some (JArr [email_payload])),
                                 reply 202 None], sent = []\<rparr>",
          OF pa delete st ct l2]
  show ?thesis
    by (simp add: u f1 f2 n reply_def)
qed

text \<open>
  C2. \<open>grafana_organization_by_name\<close> returns the \<open>orgId\<close> of the organisation whose
  name equals the requested one, and should fail with a \<open>GrafanaAPIException\<close> naming the
  organisation when the listing has none. On a listing without the requested name the
  code does not reach that \<^verbatim>\<open>raise\<close>: \<^verbatim>\<open>next\<close> is called without a default and raises
  \<open>StopIteration\<close>.
\<close>

theorem org_by_name_no_match:
  "fst (grafana_organization_by_name scripted token_interface email_params ''Other''
          \<lparr>remote = [reply 200 (Some (JArr [JObj [(''orgId'', JInt 1),
                                                   (''name'', JStr ''Main Org.'')]]))],
           sent = []\<rparr>)
     = Inl StopIteration"
  by (simp add: grafana_organization_by_name_def fetch_url_def reply_def next_plain_def)

text \<open>
  C3. With basic authentication (no API key) and \<open>org_name\<close> set, the constructor raises
  \<open>TypeError\<close> at the call of \<open>grafana_organization_by_name\<close> with one argument, and no
  request has been issued: the remote service and the record of requests are unchanged.
\<close>

theorem init_org_name_TypeError:
  assumes "grafana_api_key module_params = None \<or> grafana_api_key module_params = Some []"
    and "org_name module_params = Some n" and "n \<noteq> []"
  shows "GrafanaContactPointInterface tr module_params wld = (Inl TypeError, wld)"
  using assms
  by (auto simp: GrafanaContactPointInterface_def basic_auth_init_def)

theorem init_org_name_TypeError_witness:
  "GrafanaContactPointInterface scripted
     (email_params\<lparr>grafana_api_key := None, org_name := Some ''Main Org.''\<rparr>)
     \<lparr>remote = [reply 200 (Some (JArr []))], sent = []\<rparr>
   = (Inl TypeError, \<lparr>remote = [reply 200 (Some (JArr []))], sent = []\<rparr>)"
  using init_org_name_TypeError
    [of "email_params\<lparr>grafana_api_key := None, org_name := Some ''Main Org.''\<rparr>"
        "''Main Org.''" scripted "\<lparr>remote = [reply 200 (Some (JArr []))], sent = []\<rparr>"]
  by simp

text \<open>
  C4. Update sends the built payload with PUT to the item endpoint. On status 202 with a
  decoded body, the result is \<open>{changed: false}\<close> exactly when the snapshot \<open>before\<close>
  equals (\<^verbatim>\<open>==\<close>) the body; otherwise it is \<open>changed = true\<close> with the diff of the
  snapshot and the sent payload, and the body as \<open>contact_point\<close>. Any other status raises
  \<open>GrafanaAPIException\<close>.
\<close>

theorem update_outcome:
  assumes "tr (remote wld)
             \<lparr>req_method = ''PUT'',
              req_url = url data @ ''/api/v1/provisioning/contact-points/'' @ str_opt (uid data),
              req_data = Some payload, req_headers = self_headers self\<rparr> = (r, w1)"
  shows "sent (snd (grafana_update_contact_point tr self data payload before wld)) =
           sent wld @
           [\<lparr>req_method = ''PUT'',
             req_url = url data @ ''/api/v1/provisioning/contact-points/'' @ str_opt (uid data),
             req_data = Some payload, req_headers = self_headers self\<rparr>]
       \<and> (status (resp_info r) = 202 \<and> content r = Some contact_point \<longrightarrow>
            fst (grafana_update_contact_point tr self data payload before wld) =
              Inr (if py_eq before contact_point
                   then JObj [(''changed'', JBool False)]
                   else JObj [(''changed'', JBool True),
                              (''diff'', JObj [(''before'', before), (''after'', payload)]),
                              (''contact_point'', contact_point)]))
       \<and> (status (resp_info r) \<noteq> 202 \<longrightarrow>
            fst (grafana_update_contact_point tr self data payload before wld) =
              Inl (GrafanaAPIException ''Unable to update contact point %s : %s''
                     [arg_opt (uid data), ArgInfo (resp_info r)]))"
  using assms
  by (auto simp: grafana_update_contact_point_def fetch_url_def split: option.splits)

theorem update_outcome_witness:
  "fst (grafana_update_contact_point scripted token_interface email_params email_payload
          email_payload \<lparr>remote = [reply 202 (Some email_payload)], sent = []\<rparr>)
     = Inr (JObj [(''changed'', JBool False)])
   \<and> fst (grafana_update_contact_point scripted token_interface email_params email_payload
          (JObj [(''uid'', JStr ''email'')])
          \<lparr>remote = [reply 202 (Some email_payload)], sent = []\<rparr>)
     = Inr (JObj [(''changed'', JBool True),
                  (''diff'', JObj [(''before'', JObj [(''uid'', JStr ''email'')]),
                                   (''after'', email_payload)]),
                  (''contact_point'', email_payload)])
   \<and> fst (grafana_update_contact_point scripted token_interface email_params email_payload
          email_payload \<lparr>remote = [reply 500 None], sent = []\<rparr>)
     = Inl (GrafanaAPIException ''Unable to update contact point %s : %s''
              [ArgStr ''email'', ArgInfo \<lparr>status = 500, msg = [], body = None\<rparr>])"
proof -
  have e: "py_eq email_payload email_payload"
    and n: "\<not> py_eq (JObj [(''uid'', JStr ''email'')]) email_payload"
    by (simp_all add: email_payload_def)
  from update_outcome
         [where tr = scripted and self = token_interface and data = email_params
            and payload = email_payload and before = email_payload
            and contact_point = email_payload
            and wld = "\<lparr>remote = [reply 202 (Some email_payload)], sent = []\<rparr>"
            and r = "reply 202 (Some email_payload)" and ?w1.0 = "[]"]
       update_outcome
         [where tr = scripted and self = token_interface and data = email_params
            and payload = email_payload and before = "JObj [(''uid'', JStr ''email'')]"
            and contact_point = email_payload
            and wld = "\<lparr>remote = [reply 202 (Some email_payload)], sent = []\<rparr>"
            and r = "reply 202 (Some email_payload)" and ?w1.0 = "[]"]
       update_outcome
         [where tr = scripted and self = token_interface and data = email_params
            and payload = email_payload and before = email_payload
            and wld = "\<lparr>remote = [reply 500 None], sent = []\<rparr>"
            and r = "reply 500 None" and ?w1.0 = "[]"]
       e n
  show ?thesis
    by (simp add: reply_def email_params_def)
qed

text \<open>
  C5. For \<open>type = email\<close> the payload copies \<open>uid\<close>, \<open>name\<close>, \<open>type\<close>, \<open>isDefault\<close> and
  \<open>disableResolveMessage\<close>, holds \<open>include_image\<close> as \<open>settings.uploadImage\<close>, the
  addresses joined with \<open>;\<close> as \<open>settings.addresses\<close>, and \<open>settings.singleEmail\<close> exactly
  when the single-message flag is true; otherwise \<open>settings\<close> has no such key.
\<close>

theorem payload_email:
  assumes "type data = Some ''email''" and "email_addresses data = Some addrs"
  shows "grafana_contact_point_payload data =
     Inr (JObj
        [(''uid'', opt_str (uid data)),
         (''name'', opt_str (name data)),
         (''type'', opt_str (type data)),
         (''isDefault'', JBool (is_default data)),
         (''disableResolveMessage'', JBool (disable_resolve_message data)),
         (''settings'', JObj
            ([(''uploadImage'', JBool (include_image data)),
              (''addresses'', JStr (py_join '';'' addrs))]
             @ (if email_single data = Some True then [(''singleEmail'', JBool True)] else [])))])"
  using assms
  by (simp add: grafana_contact_point_payload_def grafana_contact_point_payload_email_def
      split: option.splits)

theorem payload_email_witness:
  "grafana_contact_point_payload email_params = Inr email_payload
   \<and> grafana_contact_point_payload (email_params\<lparr>email_single := None\<rparr>) =
       Inr (JObj [(''uid'', JStr ''email''), (''name'', JStr ''E-Mail''),
                  (''type'', JStr ''email''), (''isDefault'', JBool False),
                  (''disableResolveMessage'', JBool False),
                  (''settings'', JObj [(''uploadImage'', JBool False),
                                       (''addresses'', JStr ''a@x.com;b@x.com'')])])"
  using payload_email [of email_params "[''a@x.com'', ''b@x.com'']"]
        payload_email [of "email_params\<lparr>email_single := None\<rparr>" "[''a@x.com'', ''b@x.com'']"]
  by (simp add: email_params_def email_payload_def)

text \<open>
  C6. Delete sends DELETE to the item endpoint. Status 202 gives the result
  \<open>{state: absent, changed: true}\<close>; status 404 gives \<open>{changed: false}\<close>, a result and
  not an error; every other status raises \<open>GrafanaAPIException\<close>, so no result, and no
  \<open>changed = true\<close>, is reported.
\<close>

theorem delete_outcome:
  assumes "tr (remote wld)
             \<lparr>req_method = ''DELETE'',
              req_url = url data @ ''/api/v1/provisioning/contact-points/'' @ str_opt (uid data),
              req_data = None, req_headers = self_headers self\<rparr> = (r, w1)"
  shows "sent (snd (grafana_delete_contact_point tr self data wld)) =
           sent wld @
           [\<lparr>req_method = ''DELETE'',
             req_url = url data @ ''/api/v1/provisioning/contact-points/'' @ str_opt (uid data),
             req_data = None, req_headers = self_headers self\<rparr>]
       \<and> fst (grafana_delete_contact_point tr self data wld) =
           (if status (resp_info r) = 202
            then Inr (JObj [(''state'', JStr ''absent''), (''changed'', JBool True)])
            else if status (resp_info r) = 404
            then Inr (JObj [(''changed'', JBool False)])
            else Inl (GrafanaAPIException ''Unable to delete contact point %s : %s''
                        [arg_opt (uid data), ArgInfo (resp_info r)]))"
  using assms
  by (simp add: grafana_delete_contact_point_def fetch_url_def)

theorem delete_outcome_witness:
  "fst (grafana_delete_contact_point scripted token_interface email_params
          \<lparr>remote = [reply 202 None], sent = []\<rparr>)
     = Inr (JObj [(''state'', JStr ''absent''), (''changed'', JBool True)])
   \<and> fst (grafana_delete_contact_point scripted token_interface email_params
          \<lparr>remote = [reply 404 None], sent = []\<rparr>)
     = Inr (JObj [(''changed'', JBool False)])
   \<and> fst (grafana_delete_contact_point scripted token_interface email_params
          \<lparr>remote = [reply 500 None], sent = []\<rparr>)
     = Inl (GrafanaAPIException ''Unable to delete contact point %s : %s''
              [ArgStr ''email'', ArgInfo \<lparr>status = 500, msg = [], body = None\<rparr>])"
  using delete_outcome
          [where tr = scripted and self = token_interface and data = email_params
             and wld = "\<lparr>remote = [reply 202 None], sent = []\<rparr>"
             and r = "reply 202 None" and ?w1.0 = "[]"]
        delete_outcome
          [where tr = scripted and self = token_interface and data = email_params
             and wld = "\<lparr>remote = [reply 404 None], sent = []\<rparr>"
             and r = "reply 404 None" and ?w1.0 = "[]"]
        delete_outcome
          [where tr = scripted and self = token_interface and data = email_params
             and wld = "\<lparr>remote = [reply 500 None], sent = []\<rparr>"
             and r = "reply 500 None" and ?w1.0 = "[]"]
  by (simp add: reply_def email_params_def)

text \<open>
  C7. A listing answered with a status other than 200 raises \<open>GrafanaAPIException\<close> with
  the uid and the response information (status and body), and the listing request is the
  only request of the run. A Create answered with a status other than 202 raises
  \<open>GrafanaAPIException\<close> with the response information; and a run that reaches the
  Create (listing answered 200, no entry found, \<open>state = present\<close>) and gets such an
  answer ends with that exception: the run reports no result, so no \<open>changed = true\<close>.
\<close>

theorem unexpected_status_fatal:
  "(tr (remote wld)
      \<lparr>req_method = ''GET'',
       req_url = url data @ ''/api/v1/provisioning/contact-points'',
       req_data = None, req_headers = self_headers self\<rparr> = (r, w1)
    \<and> status (resp_info r) \<noteq> 200 \<longrightarrow>
    grafana_check_contact_point_match tr self data wld =
      (Inl (GrafanaAPIException ''Unable to get contact point %s : %s''
              [arg_opt (uid data), ArgInfo (resp_info r)]),
       \<lparr>remote = w1,
        sent = sent wld @
          [\<lparr>req_method = ''GET'',
            req_url = url data @ ''/api/v1/provisioning/contact-points'',
            req_data = None, req_headers = self_headers self\<rparr>]\<rparr>))
   \<and>
   (tr (remote wld)
      \<lparr>req_method = ''POST'',
       req_url = url data @ ''/api/v1/provisioning/contact-points'',
       req_data = Some payload, req_headers = self_headers self\<rparr> = (r', w1')
    \<and> status (resp_info r') \<noteq> 202 \<longrightarrow>
    fst (grafana_create_contact_point tr self data payload wld) =
      Inl (GrafanaAPIException ''Unable to create contact point: %s''
             [ArgInfo (resp_info r')]))
   \<and>
   (grafana_contact_point_payload data = Inr payload
    \<and> tr (remote wld)
      \<lparr>req_method = ''GET'',
       req_url = url data @ ''/api/v1/provisioning/contact-points'',
       req_data = None, req_headers = self_headers self\<rparr> = (r0, w0)
    \<and> status (resp_info r0) = 200
    \<and> content r0 = Some contact_points
    \<and> next_or_None contact_points ''uid'' (opt_str (uid data)) = Inr before
    \<and> \<not> py_truthy before
    \<and> state data = ''present''
    \<and> tr w0
      \<lparr>req_method = ''POST'',
       req_url = url data @ ''/api/v1/provisioning/contact-points'',
       req_data = Some payload, req_headers = self_headers self\<rparr> = (r2, w2)
    \<and> status (resp_info r2) \<noteq> 202 \<longrightarrow>
    grafana_check_contact_point_match tr self data wld =
      (Inl (GrafanaAPIException ''Unable to create contact point: %s''
              [ArgInfo (resp_info r2)]),
       \<lparr>remote = w2,
        sent = sent wld @
          [\<lparr>req_method = ''GET'',
            req_url = url data @ ''/api/v1/provisioning/contact-points'',
            req_data = None, req_headers = self_headers self\<rparr>,
           \<lparr>req_method = ''POST'',
            req_url = url data @ ''/api/v1/provisioning/contact-points'',
            req_data = Some payload, req_headers = self_headers self\<rparr>]\<rparr>))"
  by (simp add: grafana_check_contact_point_match_def grafana_handle_contact_point_def
      grafana_create_contact_point_def fetch_url_def)

theorem unexpected_status_fatal_witness:
  "grafana_check_contact_point_match scripted token_interface email_params
       \<lparr>remote = [\<lparr>resp_info = \<lparr>status = 503, msg = ''HTTP Error 503'',
                                   body = Some ''unavailable''\<rparr>, content = None\<rparr>,
                  reply 202 (Some email_payload)],
        sent = []\<rparr>
     = (Inl (GrafanaAPIException ''Unable to get contact point %s : %s''
               [ArgStr ''email'',
                ArgInfo \<lparr>status = 503, msg = ''HTTP Error 503'', body = Some ''unavailable''\<rparr>]),
        \<lparr>remote = [reply 202 (Some email_payload)],
         sent = [\<lparr>req_method = ''GET'',
                  req_url = ''http://grafana/api/v1/provisioning/contact-points'',
                  req_data = None, req_headers = self_headers token_interface\<rparr>]\<rparr>)
   \<and> fst (grafana_create_contact_point scripted token_interface email_params email_payload
            \<lparr>remote = [reply 500 None], sent = []\<rparr>)
     = Inl (GrafanaAPIException ''Unable to create contact point: %s''
              [ArgInfo \<lparr>status = 500, msg = [], body = None\<rparr>])
   \<and> grafana_check_contact_point_match scripted token_interface email_params
       \<lparr>remote = [reply 200 (Some (JArr [])), reply 500 None], sent = []\<rparr>
     = (Inl (GrafanaAPIException ''Unable to create contact point: %s''
               [ArgInfo \<lparr>status = 500, msg = [], body = None\<rparr>]),
        \<lparr>remote = [],
         sent = [\<lparr>req_method = ''GET'',
                  req_url = ''http://grafana/api/v1/provisioning/contact-points'',
                  req_data = None, req_headers = self_headers token_interface\<rparr>,
                 \<lparr>req_method = ''POST'',
                  req_url = ''http://grafana/api/v1/provisioning/contact-points'',
                  req_data = Some email_payload,
                  req_headers = self_headers token_interface\<rparr>]\<rparr>)"
  using unexpected_status_fatal
          [where tr = scripted and self = token_interface and data = email_params
             and wld = "\<lparr>remote = [\<lparr>resp_info = \<lparr>status = 503, msg = ''HTTP Error 503'',
                                   body = Some ''unavailable''\<rparr>, content = None\<rparr>,
                  reply 202 (Some email_payload)], sent = []\<rparr>"
             and r = "\<lparr>resp_info = \<lparr>status = 503, msg = ''HTTP Error 503'',
                                   body = Some ''unavailable''\<rparr>, content = None\<rparr>"
             and ?w1.0 = "[reply 202 (Some email_payload)]"]
        unexpected_status_fatal
          [where tr = scripted and self = token_interface and data = email_params
             and payload = email_payload
             and wld = "\<lparr>remote = [reply 500 None], sent = []\<rparr>"
             and r' = "reply 500 None" and w1' = "[]"]
        unexpected_status_fatal
          [where tr = scripted and self = token_interface and data = email_params
             and payload = email_payload
             and wld = "\<lparr>remote = [reply 200 (Some (JArr [])), reply 500 None], sent = []\<rparr>"
             and ?r0.0 = "reply 200 (Some (JArr []))" and ?w0.0 = "[reply 500 None]"
             and contact_points = "JArr []" and before = JNull
             and ?r2.0 = "reply 500 None" and ?w2.0 = "[]"]
        email_payload_built
  by (simp add: reply_def email_params_def next_or_None_def)

text \<open>
  C8, as the claim states it: a result with \<open>changed = true\<close> carries a diff. A Create
  answered 202 reports \<open>changed = true\<close> with \<open>state\<close> and \<open>contact_point\<close> and without a
  diff.
\<close>

theorem create_without_diff:
  "fst (grafana_check_contact_point_match scripted token_interface email_params
          \<lparr>remote = [reply 200 (Some (JArr [])), reply 202 (Some email_payload)],
           sent = []\<rparr>)
     = Inr (JObj [(''changed'', JBool True), (''state'', JStr ''present''),
                  (''contact_point'', email_payload)])
   \<and> py_get (JObj [(''changed'', JBool True), (''state'', JStr ''present''),
                    (''contact_point'', email_payload)]) ''changed'' = Some (JBool True)
   \<and> py_get (JObj [(''changed'', JBool True), (''state'', JStr ''present''),
                    (''contact_point'', email_payload)]) ''diff'' = None"
  by (simp add: grafana_check_contact_point_match_def grafana_handle_contact_point_def
      grafana_create_contact_point_def fetch_url_def reply_def next_or_None_def
      email_payload_built)
    (simp add: email_params_def)

text \<open>
  C8, amended. A result with \<open>changed = true\<close> carries a diff exactly when the run
  performed an Update (its last request is the PUT): then the listing was a list, the
  diff holds as \<open>before\<close> the first entry of that list whose uid equals the desired uid
  and as \<open>after\<close> the built payload. When the last request is not the PUT (Create,
  Delete) the result has no diff.
\<close>

theorem diff_only_on_update:
  assumes "fst (grafana_check_contact_point_match tr self data wld) = Inr res"
    and "py_get res ''changed'' = Some (JBool True)"
  shows "(req_method (last (sent (snd (grafana_check_contact_point_match tr self data wld))))
            = ''PUT'' \<longrightarrow>
          (\<exists>cps before payload.
             content (fst (tr (remote wld)
                \<lparr>req_method = ''GET'',
                 req_url = url data @ ''/api/v1/provisioning/contact-points'',
                 req_data = None, req_headers = self_headers self\<rparr>)) = Some (JArr cps) \<and>
             find (\<lambda>cp. has_uid cp (opt_str (uid data))) cps = Some before \<and>
             grafana_contact_point_payload data = Inr payload \<and>
             py_get res ''diff'' = Some (JObj [(''before'', before), (''after'', payload)])))
       \<and> (req_method (last (sent (snd (grafana_check_contact_point_match tr self data wld))))
            \<noteq> ''PUT'' \<longrightarrow> py_get res ''diff'' = None)"
proof -
  let ?get = "\<lparr>req_method = ''GET'',
              req_url = url data @ ''/api/v1/provisioning/contact-points'',
              req_data = None, req_headers = self_headers self\<rparr>"
  obtain r w1 where t: "tr (remote wld) ?get = (r, w1)"
    by (cases "tr (remote wld) ?get")
  let ?wld1 = "\<lparr>remote = w1, sent = sent wld @ [?get]\<rparr>"
  from assms(1) t obtain c before where
    c: "content r = Some c"
    and nx: "next_or_None c ''uid'' (opt_str (uid data)) = Inr before"
    and run: "grafana_check_contact_point_match tr self data wld =
                grafana_handle_contact_point tr self data before ?wld1"
    by (auto simp: grafana_check_contact_point_match_def fetch_url_def
        split: if_splits option.splits sum.splits)
  note hd = handle_diff [of tr self data before ?wld1 res]
  show ?thesis
  proof (cases "req_method (last (sent (snd (grafana_handle_contact_point tr self data
                                                before ?wld1)))) = ''PUT''")
    case True
    from assms(1) True have "py_truthy before"
      unfolding run by (rule handle_put_truthy) simp
    from next_or_None_truthy [OF nx this] obtain cps where
      "c = JArr cps" "find (\<lambda>cp. has_uid cp (opt_str (uid data))) cps = Some before"
      by blast
    with hd assms True c t show ?thesis
      unfolding run by auto
  next
    case False
    with hd assms show ?thesis
      unfolding run by auto
  qed
qed

theorem diff_only_on_update_witness:
  "fst (grafana_check_contact_point_match scripted token_interface email_params
          \<lparr>remote = [reply 200 (Some (JArr [JObj [(''uid'', JStr ''email'')]])),
                     reply 202 (Some email_payload)],
           sent = []\<rparr>)
     = Inr (JObj [(''changed'', JBool True),
                  (''diff'', JObj [(''before'', JObj [(''uid'', JStr ''email'')]),
                                   (''after'', email_payload)]),
                  (''contact_point'', email_payload)])
   \<and> (\<exists>before. py_get (JObj [(''changed'', JBool True),
                  (''diff'', JObj [(''before'', JObj [(''uid'', JStr ''email'')]),
                                   (''after'', email_payload)]),
                  (''contact_point'', email_payload)]) ''diff''
         = Some (JObj [(''before'', before), (''after'', email_payload)]))
   \<and> py_get (JObj [(''changed'', JBool True), (''state'', JStr ''present''),
                    (''contact_point'', email_payload)]) ''diff'' = None"
proof -
  let ?W = "\<lparr>remote = [reply 200 (Some (JArr [JObj [(''uid'', JStr ''email'')]])),
                     reply 202 (Some email_payload)],
           sent = []\<rparr>"
  let ?R = "JObj [(''changed'', JBool True),
                  (''diff'', JObj [(''before'', JObj [(''uid'', JStr ''email'')]),
                                   (''after'', email_payload)]),
                  (''contact_point'', email_payload)]"
  let ?V = "\<lparr>remote = [reply 200 (Some (JArr [])), reply 202 (Some email_payload)],
           sent = []\<rparr>"
  let ?C = "JObj [(''changed'', JBool True), (''state'', JStr ''present''),
                    (''contact_point'', email_payload)]"
  have n: "\<not> py_eq (JObj [(''uid'', JStr ''email'')]) email_payload"
    by (simp add: email_payload_def)
  have u: "uid email_params = Some ''email''" and s: "state email_params = ''present''"
    and l: "url email_params = ''http://grafana''"
    by (simp_all add: email_params_def)
  have run: "grafana_check_contact_point_match scripted token_interface email_params ?W =
               (Inr ?R,
                \<lparr>remote = [],
                 sent = [\<lparr>req_method = ''GET'',
                          req_url = ''http://grafana/api/v1/provisioning/contact-points'',
                          req_data = None, req_headers = self_headers token_interface\<rparr>,
                         \<lparr>req_method = ''PUT'',
                          req_url = ''http://grafana/api/v1/provisioning/contact-points/email'',
                          req_data = Some email_payload,
                          req_headers = self_headers token_interface\<rparr>]\<rparr>)"
    by (simp add: grafana_check_contact_point_match_def grafana_handle_contact_point_def
        grafana_update_contact_point_def fetch_url_def reply_def next_or_None_def
        email_payload_built n u s l)
  have run': "grafana_check_contact_point_match scripted token_interface email_params ?V =
               (Inr ?C,
                \<lparr>remote = [],
                 sent = [\<lparr>req_method = ''GET'',
                          req_url = ''http://grafana/api/v1/provisioning/contact-points'',
                          req_data = None, req_headers = self_headers token_interface\<rparr>,
                         \<lparr>req_method = ''POST'',
                          req_url = ''http://grafana/api/v1/provisioning/contact-points'',
                          req_data = Some email_payload,
                          req_headers = self_headers token_interface\<rparr>]\<rparr>)"
    by (simp add: grafana_check_contact_point_match_def grafana_handle_contact_point_def
        grafana_create_contact_point_def fetch_url_def reply_def next_or_None_def
        email_payload_built u s l)
  from diff_only_on_update [of scripted token_interface email_params ?W ?R]
       diff_only_on_update [of scripted token_interface email_params ?V ?C]
  show ?thesis
    unfolding run run' by (simp add: email_payload_built)
qed

text \<open>
  C10. A run whose result reports \<open>changed = false\<close> returns exactly
  \<open>{changed: false}\<close>: the result has no diff, no contact point and no state.
\<close>

theorem unchanged_result_exact:
  assumes "fst (grafana_check_contact_point_match tr self data wld) = Inr res"
    and "py_get res ''changed'' = Some (JBool False)"
  shows "res = JObj [(''changed'', JBool False)]"
  using assms
  by (auto simp: grafana_check_contact_point_match_def fetch_url_def
      split: prod.splits option.splits if_splits sum.splits
      dest: handle_unchanged)

theorem unchanged_result_exact_witness:
  "fst (grafana_check_contact_point_match scripted token_interface email_params
          \<lparr>remote = [reply 200 (Some (JArr [email_payload])),
                     reply 202 (Some email_payload)],
           sent = []\<rparr>)
     = Inr (JObj [(''changed'', JBool False)])"
proof -
  let ?W = "\<lparr>remote = [reply 200 (Some (JArr [email_payload])),
                     reply 202 (Some email_payload)],
           sent = []\<rparr>"
  have e: "py_eq email_payload email_payload"
    by (simp add: email_payload_def)
  have m: "py_getitem email_payload ''uid'' = Inr (JStr ''email'')"
    and t: "py_truthy email_payload"
    by (simp_all add: email_payload_def)
  have u: "uid email_params = Some ''email''" and s: "state email_params = ''present''"
    and l: "url email_params = ''http://grafana''"
    by (simp_all add: email_params_def)
  obtain res where r: "fst (grafana_check_contact_point_match scripted token_interface
                              email_params ?W) = Inr res"
    and c: "py_get res ''changed'' = Some (JBool False)"
    by (simp add: grafana_check_contact_point_match_def grafana_handle_contact_point_def
        grafana_update_contact_point_def fetch_url_def reply_def next_or_None_def
        email_payload_built e m t u s l)
  from unchanged_result_exact [OF r c] r show ?thesis by simp
qed

text \<open>
  C9, as the claim states it: after a Create, the second run reports \<open>changed = false\<close>.
  The second run after a Create finds the created entry and performs an Update; against
  a store that acknowledges the update with a message, both runs report
  \<open>changed = true\<close>.
\<close>

theorem create_then_update_changed_twice:
  "fst (grafana_check_contact_point_match (store_transport ''http://grafana'' ack_message)
          token_interface email_params \<lparr>remote = [], sent = []\<rparr>)
     = Inr (JObj [(''changed'', JBool True), (''state'', JStr ''present''),
                  (''contact_point'', email_payload)])
   \<and> fst (grafana_check_contact_point_match (store_transport ''http://grafana'' ack_message)
          token_interface email_params
          (snd (grafana_check_contact_point_match
                  (store_transport ''http://grafana'' ack_message)
                  token_interface email_params \<lparr>remote = [], sent = []\<rparr>)))
     = Inr (JObj [(''changed'', JBool True),
                  (''diff'', JObj [(''before'', email_payload), (''after'', email_payload)]),
                  (''contact_point'', JObj [(''message'', JStr ''contactpoint updated'')])])"
proof -
  let ?tr = "store_transport (url email_params) ack_message"
  have l: "url email_params = ''http://grafana''"
    and u: "uid email_params = Some ''email''"
    and st: "state email_params = ''present''"
    by (simp_all add: email_params_def)
  have o1: "store_ok []" and o2: "store_ok ([] @ [email_payload])"
    by (simp_all add: store_ok_def email_payload_def)
  have r1: "remote \<lparr>remote = [] :: json list, sent = []\<rparr> = []"
    by simp
  have n: "\<not> (\<exists>e\<in>set []. has_uid e (JStr ''email''))"
    by simp
  note first = run_present_nomatch [OF o1 r1 u email_payload_built st n, of ack_message
                  token_interface]
  have f: "find (\<lambda>e. has_uid e (JStr ''email'')) ([] @ [email_payload]) = Some email_payload"
    by (simp add: has_uid_def email_payload_def)
  have ne: "\<not> py_eq email_payload (ack_message email_payload)"
    by (simp add: email_payload_def ack_message_def)
  note second = run_present_match(1) [OF o2 first(2) u email_payload_built st f, of ack_message
                   token_interface]
  from first(1) second ne show ?thesis
    unfolding l by (simp add: ack_message_def)
qed

text \<open>
  C9, amended. Against a remote store, for a desired state with a uid, two runs in a row
  both return a result. With a state other than \<open>present\<close> (Delete or no action) the
  second run returns \<open>{changed: false}\<close>. With \<open>state = present\<close> (Create or Update
  in the first run) the second run is an Update whose snapshot is the stored payload: it
  returns \<open>{changed: false}\<close> exactly when the body the remote answers equals
  (\<^verbatim>\<open>==\<close>) the stored entry, and \<open>changed = true\<close> otherwise.
\<close>

theorem rerun_outcome:
  assumes ok: "store_ok s" and rem: "remote wld = s" and u: "uid data = Some u"
    and p: "grafana_contact_point_payload data = Inr p"
  shows "(\<exists>r1. fst (grafana_check_contact_point_match (store_transport (url data) ack)
                      self data wld) = Inr r1)
       \<and> fst (grafana_check_contact_point_match (store_transport (url data) ack) self data
               (snd (grafana_check_contact_point_match (store_transport (url data) ack)
                       self data wld)))
           = Inr (if state data = ''present'' \<and> \<not> py_eq p (ack p)
                  then JObj [(''changed'', JBool True),
                             (''diff'', JObj [(''before'', p), (''after'', p)]),
                             (''contact_point'', ack p)]
                  else JObj [(''changed'', JBool False)])"
proof -
  let ?tr = "store_transport (url data) ack"
  let ?run1 = "grafana_check_contact_point_match ?tr self data wld"
  let ?P = "\<lambda>e. has_uid e (JStr u)"
  note pe = payload_entry [OF p u]
  show ?thesis
  proof (cases "state data = ''present''")
    case True
    show ?thesis
    proof (cases "\<exists>e\<in>set s. ?P e")
      case ex: True
      then obtain b where b: "find ?P s = Some b"
        by (cases "find ?P s") (auto simp: find_None_iff)
      note r1 = run_present_match [OF ok rem u p True b, of ack self]
      have ok': "store_ok (map (\<lambda>e. if ?P e then p else e) s)"
        using ok pe(2) by (auto simp: store_ok_def list_all_iff)
      have f': "find ?P (map (\<lambda>e. if ?P e then p else e) s) = Some p"
        using ex pe(1) by (rule find_replaced)
      from rerun_present [OF ok' r1(2) u p True f', of ack self] r1(1)
      show ?thesis by simp
    next
      case nex: False
      note r1 = run_present_nomatch [OF ok rem u p True nex, of ack self]
      have ok': "store_ok (s @ [p])"
        using ok pe(2) by (auto simp: store_ok_def)
      have f': "find ?P (s @ [p]) = Some p"
        using nex pe(1) by (rule find_appended)
      from rerun_present [OF ok' r1(2) u p True f', of ack self] r1(1)
      show ?thesis by simp
    qed
  next
    case False
    show ?thesis
    proof (cases "\<exists>e\<in>set s. ?P e")
      case ex: True
      note r1 = run_absent_match [OF ok rem u p False ex, of ack self]
      have ok': "store_ok (filter (\<lambda>e. \<not> ?P e) s)"
        using ok by (auto simp: store_ok_def list_all_iff)
      have nex': "\<not> (\<exists>e\<in>set (filter (\<lambda>e. \<not> ?P e) s). ?P e)"
        by simp
      from run_absent_nomatch(1) [OF ok' r1(2) u p False nex', of ack self] r1(1) False
      show ?thesis by simp
    next
      case nex: False
      note r1 = run_absent_nomatch [OF ok rem u p False nex, of ack self]
      from run_absent_nomatch(1) [OF ok r1(2) u p False nex, of ack self] r1(1) False
      show ?thesis by simp
    qed
  qed
qed

theorem rerun_outcome_witness:
  "fst (grafana_check_contact_point_match (store_transport ''http://grafana'' id)
          token_interface email_params
          (snd (grafana_check_contact_point_match (store_transport ''http://grafana'' id)
                  token_interface email_params \<lparr>remote = [], sent = []\<rparr>)))
     = Inr (JObj [(''changed'', JBool False)])
   \<and> fst (grafana_check_contact_point_match (store_transport ''http://grafana'' id)
          token_interface (email_params\<lparr>state := ''absent''\<rparr>)
          (snd (grafana_check_contact_point_match (store_transport ''http://grafana'' id)
                  token_interface (email_params\<lparr>state := ''absent''\<rparr>)
                  \<lparr>remote = [email_payload], sent = []\<rparr>)))
     = Inr (JObj [(''changed'', JBool False)])"
proof -
  have e: "py_eq email_payload (id email_payload)"
    by (simp add: email_payload_def)
  have p': "grafana_contact_point_payload (email_params\<lparr>state := ''absent''\<rparr>)
              = Inr email_payload"
    by (simp add: grafana_contact_point_payload_def grafana_contact_point_payload_email_def
        email_params_def email_payload_def)
  have o1: "store_ok []" and o2: "store_ok [email_payload]"
    by (simp_all add: store_ok_def email_payload_def)
  have u: "uid email_params = Some ''email''"
    and u': "uid (email_params\<lparr>state := ''absent''\<rparr>) = Some ''email''"
    and l: "url email_params = ''http://grafana''"
    and l': "url (email_params\<lparr>state := ''absent''\<rparr>) = ''http://grafana''"
    and s': "state (email_params\<lparr>state := ''absent''\<rparr>) \<noteq> ''present''"
    by (simp_all add: email_params_def)
  have r1: "remote \<lparr>remote = [] :: json list, sent = []\<rparr> = []"
    and r2: "remote \<lparr>remote = [email_payload], sent = []\<rparr> = [email_payload]"
    by simp_all
  from rerun_outcome [OF o1 r1 u email_payload_built, of id token_interface]
       rerun_outcome [OF o2 r2 u' p', of id token_interface]
       e s'
  show ?thesis
    unfolding l l' by simp
qed

end
